theory Spec2Isabelle
  imports Complex_Main "HOL-Library.AList"
begin

section \<open>Values, dictionaries, errors\<close>

text \<open>
  The program is the Python class \<open>ppdire\<close> (src/ppdire/ppdire.py). Floating point
  numbers are modelled as reals, so every statement below is about exact arithmetic;
  a numpy operation whose float result is not finite (division by zero, square root of
  a negative number) is an error value of the model.
\<close>

datatype pyval =
  PNone | PBool bool | PInt int | PFloat real | PStr string
  | PVec "real list" | PMat "real list list"

type_synonym pydict = "(string \<times> pyval) list"
type_synonym vec = "real list"
type_synonym mat = "real list list"

text \<open>The \<open>fit\<close> method of a projection index object: keyword arguments and a score vector.\<close>
type_synonym evaluator = "pydict \<Rightarrow> vec \<Rightarrow> real"

datatype error =
  NameError string | AttributeError string | ValueError string | TypeError string
  | KeyError string | MyException string | UnboundLocalError string | OverflowError string
  | NonFinite string

text \<open>A class, function or module, known by its qualified name.\<close>

datatype pyobj = PyObj string

definition has_key :: "string \<Rightarrow> pydict \<Rightarrow> bool" where
  "has_key k d = (map_of d k \<noteq> None)"

definition dict_get :: "pydict \<Rightarrow> string \<Rightarrow> pyval" where
  "dict_get d k = (case map_of d k of None \<Rightarrow> PNone | Some v \<Rightarrow> v)"

definition dict_get_default :: "pydict \<Rightarrow> string \<Rightarrow> pyval \<Rightarrow> pyval" where
  "dict_get_default d k dflt = (case map_of d k of None \<Rightarrow> dflt | Some v \<Rightarrow> v)"

section \<open>numpy operations on lists\<close>

definition col :: "mat \<Rightarrow> nat \<Rightarrow> vec" where
  "col A j = map (\<lambda>r. r ! j) A"

definition ncols :: "mat \<Rightarrow> nat" where
  "ncols A = (case A of [] \<Rightarrow> 0 | r # _ \<Rightarrow> length r)"

definition dot :: "vec \<Rightarrow> vec \<Rightarrow> real" where
  "dot u v = sum_list (map2 (*) u v)"

definition matmul :: "mat \<Rightarrow> mat \<Rightarrow> mat" where
  "matmul A B = map (\<lambda>r. map (\<lambda>j. dot r (col B j)) [0..<ncols B]) A"

definition matvec :: "mat \<Rightarrow> vec \<Rightarrow> vec" where
  "matvec A v = map (\<lambda>r. dot r v) A"

definition np_linspace :: "real \<Rightarrow> real \<Rightarrow> nat \<Rightarrow> bool \<Rightarrow> real list" where
  "np_linspace start stop num endpoint =
     (let d = (if endpoint then num - 1 else num);
          step = (stop - start) / real d;
          ys = map (\<lambda>k. start + real k * step) [0..<num]
      in if endpoint \<and> 1 < num then ys[num - 1 := stop] else ys)"

fun np_max :: "real list \<Rightarrow> real" where
  "np_max [] = 0"
| "np_max (x # xs) = fold max xs x"

definition np_where_eq :: "real list \<Rightarrow> real \<Rightarrow> nat list" where
  "np_where_eq meas m = filter (\<lambda>i. meas ! i = m) [0..<length meas]"

definition euclid_norm :: "vec \<Rightarrow> real" where
  "euclid_norm v = sqrt (sum_list (map (\<lambda>x. x * x) v))"

section \<open>The estimator object\<close>

text \<open>The attributes \<open>_stop0c\<close>, \<open>_stop0s\<close>, \<open>_stop1c\<close>, \<open>_stop1s\<close> and \<open>optmax\<close>,
  which \<open>_gridplane\<close> and \<open>fit\<close> set together and \<open>_gridplane_2\<close> reads.\<close>

record cache =
  stop0c :: real
  stop0s :: real
  stop1c :: real
  stop1s :: real
  optmax :: real

record ppdire =
  projection_index :: pyobj
  pi_new :: "pydict \<Rightarrow> evaluator"
  pi_arguments :: pydict
  n_components :: pyval
  trimming :: real
  alpha :: real
  center :: string
  center_data :: bool
  scale_data :: bool
  whiten_data :: bool
  square_pi :: bool
  copy :: bool
  verbose :: bool
  return_scaling_object :: bool
  constraint :: string
  optrange :: "real \<times> real"
  most :: "evaluator option"
  cached :: "cache option"

section \<open>Grid search in a plane: \<open>_gridplane\<close>\<close>

definition grid_biascorr :: "pydict \<Rightarrow> pydict \<Rightarrow> pyval" where
  "grid_biascorr kwargs pi_args =
     (if \<not> has_key ''biascorr'' kwargs \<and> \<not> has_key ''biascorr'' pi_args then PBool False
      else dict_get kwargs ''biascorr'')"

definition grid_ndir :: "pydict \<Rightarrow> pydict \<Rightarrow> pyval" where
  "grid_ndir kwargs pi_args =
     (if \<not> has_key ''ndir'' kwargs \<and> \<not> has_key ''ndir'' pi_args then PInt 100
      else dict_get kwargs ''ndir'')"

definition grid_pi_arguments :: "ppdire \<Rightarrow> pydict \<Rightarrow> pydict \<Rightarrow> pydict" where
  "grid_pi_arguments self kwargs pi_args =
     (let pa = (if length pi_args = 0
                then [(''alpha'', PFloat (alpha self)),
                      (''ndir'', grid_ndir kwargs pi_args),
                      (''trimming'', PFloat (trimming self)),
                      (''biascorr'', grid_biascorr kwargs pi_args),
                      (''dmetric'', PStr ''euclidean'')]
                else AList.update ''trimming'' (PFloat (trimming self))
                       (AList.update ''alpha'' (PFloat (alpha self)) pi_args))
      in if has_key ''y'' kwargs then AList.update ''y'' (dict_get kwargs ''y'') pa else pa)"

text \<open>Lines 159 to 163: the four arcsine and arccosine bounds of the sign sector.\<close>

definition sector :: "ppdire \<Rightarrow> real \<Rightarrow> cache" where
  "sector self om =
     \<lparr> stop0c = arccos (sgn (snd (optrange self))),
       stop0s = arcsin (sgn (fst (optrange self))),
       stop1c = arccos (sgn (fst (optrange self))),
       stop1s = arcsin (sgn (snd (optrange self))),
       optmax = om \<rparr>"

definition trig_matrix :: "real list \<Rightarrow> real \<Rightarrow> mat" where
  "trig_matrix nangle om =
     (let alphamat = [map cos nangle, map sin nangle]
      in if om \<noteq> 1 then map (map (\<lambda>x. x * om)) alphamat else alphamat)"

text \<open>Lines 164 to 169: the open grid of \<open>_gridplane\<close>.\<close>

definition coarse_angles :: "cache \<Rightarrow> nat \<Rightarrow> real list" where
  "coarse_angles b ndir =
     (let anglestart = max (stop0c b) (stop0s b);
          anglestop = max (stop1c b) (stop1s b)
      in np_linspace anglestart anglestop ndir False)"

definition coarse_alphamat :: "cache \<Rightarrow> nat \<Rightarrow> mat" where
  "coarse_alphamat b ndir = trig_matrix (coarse_angles b ndir) (optmax b)"

definition objective :: "ppdire \<Rightarrow> evaluator \<Rightarrow> pydict \<Rightarrow> vec \<Rightarrow> real" where
  "objective self f pa t = (if square_pi self then (f pa t)\<^sup>2 else f pa t)"

text \<open>Lines 171 to 183 (and again 261 to 274): project the block on every candidate,
  evaluate the index, take the first position of the maximum.\<close>

definition grid_search :: "ppdire \<Rightarrow> pydict \<Rightarrow> mat \<Rightarrow> mat \<Rightarrow> nat \<Rightarrow> error + (vec \<times> real)" where
  "grid_search self pa X alphamat ndir =
     (if \<not> (\<forall>r \<in> set X. length r = 2) then Inl (ValueError ''shapes not aligned'')
      else if ndir = 0 then Inl (ValueError ''zero-size array to reduction operation maximum'')
      else case most self of
        None \<Rightarrow> Inl (AttributeError ''most'')
      | Some f \<Rightarrow>
          (let tj = matmul X alphamat;
               meas = map (\<lambda>i. objective self f pa (col tj i)) [0..<ndir];
               maximo = np_max meas;
               indmax = np_where_eq meas maximo;
               wi = (case indmax of [] \<Rightarrow> [] | i # _ \<Rightarrow> col alphamat i)
           in Inr (wi, maximo)))"

definition gridplane :: "ppdire \<Rightarrow> mat \<Rightarrow> pydict \<Rightarrow> pydict \<Rightarrow> error + ((vec \<times> real) \<times> ppdire)" where
  "gridplane self X pi_args kwargs =
     (let pa = grid_pi_arguments self kwargs pi_args
      in case map_of kwargs ''alphamat'' of
           Some (PMat a) \<Rightarrow>
             (case grid_ndir kwargs pi_args of
                PInt nd \<Rightarrow>
                  if nd < 0 then Inl (ValueError ''Number of samples must be non-negative'')
                  else (case dict_get_default kwargs ''optmax'' (PFloat (snd (optrange self))) of
                      PFloat om \<Rightarrow>
                        (let b = sector self om;
                             alphamat = coarse_alphamat b (nat nd)
                         in case grid_search self pa X alphamat (nat nd) of
                              Inl e \<Rightarrow> Inl e
                            | Inr r \<Rightarrow> Inr (r, self\<lparr>cached := Some b\<rparr>))
                    | _ \<Rightarrow> Inl (TypeError ''optmax''))
              | _ \<Rightarrow> Inl (TypeError ''ndir''))
         | _ \<Rightarrow> Inl (AttributeError ''all''))"

section \<open>Refined grid search: \<open>_gridplane_2\<close>\<close>

text \<open>Lines 252 to 257: the closed grid, on the bounds read from the attributes.\<close>

definition refine_angles :: "cache \<Rightarrow> nat \<Rightarrow> real list" where
  "refine_angles b ndir =
     (let anglestart = min (stop0c b) (stop0s b);
          anglestop = min (stop1c b) (stop1s b)
      in np_linspace anglestart anglestop ndir True)"

definition refine_alphamat :: "cache \<Rightarrow> nat \<Rightarrow> mat" where
  "refine_alphamat b ndir = trig_matrix (refine_angles b ndir) (optmax b)"

text \<open>Lines 259 and 260. Where numpy would produce a value that is not finite (the
  radicand is negative or zero) the model stops with \<open>NonFinite\<close>.\<close>

definition radicands :: "mat \<Rightarrow> real \<Rightarrow> real list" where
  "radicands alphamat q0 = map2 (\<lambda>c s. 1 + 2 * (c * s) * q0) (alphamat ! 0) (alphamat ! 1)"

definition rescale :: "mat \<Rightarrow> real \<Rightarrow> error + mat" where
  "rescale alphamat q0 =
     (let rs = radicands alphamat q0
      in if \<exists>r \<in> set rs. r \<le> 0 then Inl (NonFinite ''divisor'')
         else Inr (map (\<lambda>row. map2 (\<lambda>x r. x / sqrt r) row rs) alphamat))"

text \<open>The parameter \<open>div\<close> (here \<open>divv\<close>) is received and never read.\<close>

definition gridplane_2 :: "ppdire \<Rightarrow> mat \<Rightarrow> vec \<Rightarrow> int \<Rightarrow> pydict \<Rightarrow> pydict \<Rightarrow> error + (vec \<times> real)" where
  "gridplane_2 self X q divv pi_args kwargs =
     (let pa = grid_pi_arguments self kwargs pi_args
      in case map_of kwargs ''alphamat'' of
           Some (PMat a) \<Rightarrow>
             (case cached self of
                None \<Rightarrow> Inl (AttributeError ''_stop0c'')
              | Some b \<Rightarrow>
                 (case grid_ndir kwargs pi_args of
                    PInt nd \<Rightarrow>
                      if nd < 0 then Inl (ValueError ''Number of samples must be non-negative'')
                      else (case q of
                          [] \<Rightarrow> Inl (TypeError ''q[0]'')
                        | q0 # _ \<Rightarrow>
                           (case rescale (refine_alphamat b (nat nd)) q0 of
                              Inl e \<Rightarrow> Inl e
                            | Inr alpha1 \<Rightarrow> grid_search self pa X alpha1 (nat nd)))
                  | _ \<Rightarrow> Inl (TypeError ''ndir'')))
         | _ \<Rightarrow> Inl (AttributeError ''all''))"

section \<open>The pairwise reduction for more than two variables (lines 583 to 662)\<close>

fun foldE :: "('a \<Rightarrow> 's \<Rightarrow> error + 's) \<Rightarrow> 'a list \<Rightarrow> 's \<Rightarrow> error + 's" where
  "foldE f [] s = Inr s"
| "foldE f (x # xs) s = (case f x s of Inl e \<Rightarrow> Inl e | Inr s' \<Rightarrow> foldE f xs s')"

text \<open>\<open>float(wi[0])\<close> and \<open>float(wi[1])\<close> of a 2 by 1 matrix.\<close>

definition wi_pair :: "vec \<Rightarrow> error + (real \<times> real)" where
  "wi_pair wi = (case wi of [a, b] \<Rightarrow> Inr (a, b) | _ \<Rightarrow> Inl (TypeError ''float(wi[0])''))"

definition projmat :: "vec \<Rightarrow> mat \<Rightarrow> nat \<Rightarrow> mat" where
  "projmat Zopt Z j = map2 (\<lambda>a b. [a, b]) Zopt (col Z j)"

definition combine :: "vec \<Rightarrow> mat \<Rightarrow> nat \<Rightarrow> real \<Rightarrow> real \<Rightarrow> vec" where
  "combine Zopt Z j w0 w1 = map2 (\<lambda>z x. z * w0 + x * w1) Zopt (col Z j)"

text \<open>Lines 594 to 602: one step of the sequential fold, for the variable \<open>j\<close>.\<close>

definition fold_step :: "mat \<Rightarrow> pydict \<Rightarrow> nat \<Rightarrow> vec \<times> vec \<times> ppdire \<Rightarrow> error + (vec \<times> vec \<times> ppdire)" where
  "fold_step Z grid_args j st =
     (case st of (Zopt, afin, self) \<Rightarrow>
        (case gridplane self (projmat Zopt Z j) [] grid_args of
           Inl e \<Rightarrow> Inl e
         | Inr ((wi, maximo), self') \<Rightarrow>
             (case wi_pair wi of
                Inl e \<Rightarrow> Inl e
              | Inr (w0, w1) \<Rightarrow>
                  Inr (combine Zopt Z j w0 w1,
                       (map (\<lambda>a. a * w0) (take (j + 1) afin) @ drop (j + 1) afin)[j := w1],
                       self'))))"

text \<open>Lines 583 to 610. The list \<open>meas\<close> of lines 586 to 590 is computed from a pure
  evaluator and never read, so it has no counterpart here.\<close>

definition reduce_seed :: "ppdire \<Rightarrow> mat \<Rightarrow> nat \<Rightarrow> pydict \<Rightarrow> error + (vec \<times> vec \<times> real \<times> ppdire)" where
  "reduce_seed self Z p grid_args =
     (case most self of
        None \<Rightarrow> Inl (AttributeError ''most'')
      | Some f \<Rightarrow>
          (case gridplane self (map (take 2) Z) [] grid_args of
             Inl e \<Rightarrow> Inl e
           | Inr ((wi, maximo), self1) \<Rightarrow>
               (case wi_pair wi of
                  Inl e \<Rightarrow> Inl e
                | Inr (w0, w1) \<Rightarrow>
                    (case foldE (fold_step Z grid_args) [2..<p]
                            (matvec (map (take 2) Z) wi, wi @ drop 2 (replicate p 0), self1) of
                       Inl e \<Rightarrow> Inl e
                     | Inr (Zopt, afin, self2) \<Rightarrow>
                         Inr (Zopt, afin, objective self f grid_args (matvec Z afin), self2)))))"

text \<open>Line 617. Python rounds a tie to the even integer; the binary logarithm of an
  integer is never half an odd integer, so no tie occurs.\<close>

definition maxiter_2j :: "int \<Rightarrow> error + int" where
  "maxiter_2j maxiter =
     (if maxiter \<le> 0 then Inl (OverflowError ''cannot convert float infinity or NaN to integer'')
      else Inr (2 ^ nat (round (log 2 (real_of_int maxiter)))))"

text \<open>Lines 623 to 626.\<close>

definition divv_of :: "int \<Rightarrow> nat \<Rightarrow> int" where
  "divv_of m2j j = (if 16 < j then m2j else min (2 ^ j) m2j)"

text \<open>Lines 621 to 635: one step of a sweep, for the variable \<open>j\<close>.\<close>

definition sweep_step :: "ppdire \<Rightarrow> mat \<Rightarrow> pydict \<Rightarrow> int \<Rightarrow> nat \<Rightarrow> vec \<times> vec \<Rightarrow> error + (vec \<times> vec)" where
  "sweep_step self Z grid_args_2 m2j j st =
     (case st of (Zopt, afin) \<Rightarrow>
        (case gridplane_2 self (projmat Zopt Z j) [afin ! j] (divv_of m2j j) [] grid_args_2 of
           Inl e \<Rightarrow> Inl e
         | Inr (wi, maximo) \<Rightarrow>
             (case wi_pair wi of
                Inl e \<Rightarrow> Inl e
              | Inr (w0, w1) \<Rightarrow>
                  Inr (combine Zopt Z j w0 w1,
                       (map (\<lambda>a. a * w0) afin)[j := afin ! j * w0 + w1]))))"

text \<open>\<open>afinbest\<close> is bound on line 615 to the array object of \<open>afin\<close>, which lines 634
  and 635 change in place; line 650 binds it to a new array.\<close>

datatype best = SameArray | NewArray vec

record loop_state =
  l_Zopt :: vec
  l_afin :: vec
  l_objf :: real
  l_objfold :: real
  l_afinbest :: best


text \<open>Lines 648 to 652.\<close>

definition update_best :: "ppdire \<Rightarrow> real \<Rightarrow> real \<Rightarrow> vec \<Rightarrow> best \<Rightarrow> error + best" where
  "update_best self objf objfold afin old =
     (if objf \<noteq> objfold then
        (if constraint self = ''norm'' then
           (if euclid_norm afin = 0 then Inl (NonFinite ''afin / norm'')
            else Inr (NewArray (map (\<lambda>a. a / euclid_norm afin) afin)))
         else Inr SameArray)
      else Inr old)"

text \<open>Lines 620 to 654: one sweep over the variables.\<close>

definition outer_body :: "ppdire \<Rightarrow> evaluator \<Rightarrow> mat \<Rightarrow> nat \<Rightarrow> pydict \<Rightarrow> pydict \<Rightarrow> int \<Rightarrow> loop_state \<Rightarrow> error + loop_state" where
  "outer_body self f Z p grid_args grid_args_2 m2j s =
     (case foldE (sweep_step self Z grid_args_2 m2j) [0..<p] (l_Zopt s, l_afin s) of
        Inl e \<Rightarrow> Inl e
      | Inr (Zopt', afin') \<Rightarrow>
          (let objfold' = l_objf s;
               objf' = objective self f ((''q'', PVec afin') # grid_args) (matvec Z afin')
           in case update_best self objf' objfold' afin' (l_afinbest s) of
                Inl e \<Rightarrow> Inl e
              | Inr b \<Rightarrow>
                  Inr \<lparr> l_Zopt = Zopt', l_afin = afin', l_objf = objf', l_objfold = objfold',
                        l_afinbest = b \<rparr>))"

text \<open>Line 619 and the loop it heads; \<open>ii\<close> counts the sweeps made.\<close>

function outer_loop :: "ppdire \<Rightarrow> evaluator \<Rightarrow> mat \<Rightarrow> nat \<Rightarrow> pydict \<Rightarrow> pydict \<Rightarrow> int \<Rightarrow> int \<Rightarrow> nat \<Rightarrow> loop_state \<Rightarrow> error + (loop_state \<times> nat)" where
  "outer_loop self f Z p grid_args grid_args_2 maxiter m2j ii s =
     (if \<not> (int ii < maxiter + 1) then Inr (s, ii)
      else if l_objf s = 0 then Inl (NonFinite ''abs(objfold - objf)/abs(objf)'')
      else if \<not> (\<bar>l_objfold s - l_objf s\<bar> / \<bar>l_objf s\<bar> > 1 / 10000) then Inr (s, ii)
      else case outer_body self f Z p grid_args grid_args_2 m2j s of
             Inl e \<Rightarrow> Inl e
           | Inr s' \<Rightarrow> outer_loop self f Z p grid_args grid_args_2 maxiter m2j (Suc ii) s')"
  by pat_completeness auto
termination
  by (relation "measure (\<lambda>(self, f, Z, p, grid_args, grid_args_2, maxiter, m2j, ii, s). nat (maxiter + 1 - int ii))") auto

declare outer_loop.simps [simp del]

text \<open>Lines 583 to 662: the direction for one component when \<open>p > 2\<close>. The result is the
  direction \<open>wi\<close>, the value stored in \<open>Maxobjf[i]\<close>, the number of sweeps and the object.\<close>

definition reduce :: "ppdire \<Rightarrow> mat \<Rightarrow> nat \<Rightarrow> pydict \<Rightarrow> pydict \<Rightarrow> pyval \<Rightarrow> error + (vec \<times> real \<times> nat \<times> ppdire)" where
  "reduce self E p grid_args grid_args_2 maxiter =
     (case reduce_seed self E p grid_args of
        Inl e \<Rightarrow> Inl e
      | Inr (Zopt, afin, objf0, self') \<Rightarrow>
          (case maxiter of
             PInt m \<Rightarrow>
               (case maxiter_2j m of
                  Inl e \<Rightarrow> Inl e
                | Inr m2j \<Rightarrow>
                    (case most self' of
                       None \<Rightarrow> Inl (AttributeError ''most'')
                     | Some f \<Rightarrow>
                         (case outer_loop self' f E p grid_args grid_args_2 m m2j 0
                                 \<lparr> l_Zopt = Zopt, l_afin = afin, l_objf = - 1000, l_objfold = objf0,
                                   l_afinbest = SameArray \<rparr> of
                            Inl e \<Rightarrow> Inl e
                          | Inr (s, ii) \<Rightarrow> Inr (l_afin s, l_objf s, ii, self'))))
           | _ \<Rightarrow> Inl (TypeError ''maxiter'')))"

section \<open>Deflation (lines 666 to 668 and 691)\<close>

definition transpose_mat :: "mat \<Rightarrow> mat" where
  "transpose_mat A = map (col A) [0..<ncols A]"

text \<open>The score \<open>ti = E*wi\<close>, its norm, the loading \<open>pi = E.T*ti / nti**2\<close> and the
  residual \<open>E - ti*pi.T\<close>. A score of norm zero makes the loading not finite.\<close>

definition deflate :: "mat \<Rightarrow> vec \<Rightarrow> error + (vec \<times> vec \<times> mat)" where
  "deflate E wi =
     (let ti = matvec E wi;
          nti = euclid_norm ti
      in if nti = 0 then Inl (NonFinite ''E.T*ti / (nti**2)'')
         else (let pli = map (\<lambda>x. x / nti\<^sup>2) (matvec (transpose_mat E) ti)
               in Inr (ti, pli, map2 (\<lambda>row t. map2 (\<lambda>e q. e - t * q) row pli) E ti)))"

section \<open>The method \<open>fit\<close>\<close>

text \<open>The names bound in the module's namespace when \<open>fit\<close> runs: the imports of lines 13
  to 23 and the two classes. The import of \<open>dicomo\<close> on line 12 is a comment.\<close>

definition module_globals :: "(string \<times> pyobj) list" where
  "module_globals =
     [(''np'', PyObj ''numpy''),
      (''QuantReg'', PyObj ''statsmodels.regression.quantile_regression.QuantReg''),
      (''sps'', PyObj ''scipy.stats''),
      (''pinv2'', PyObj ''scipy.linalg.pinv2''),
      (''copy'', PyObj ''copy''),
      (''_BaseComposition'', PyObj ''sklearn.utils.metaestimators._BaseComposition''),
      (''RegressorMixin'', PyObj ''sklearn.base.RegressorMixin''),
      (''BaseEstimator'', PyObj ''sklearn.base.BaseEstimator''),
      (''TransformerMixin'', PyObj ''sklearn.base.TransformerMixin''),
      (''svd_flip'', PyObj ''sklearn.utils.extmath.svd_flip''),
      (''rm'', PyObj ''sprm.rm''),
      (''robcent'', PyObj ''sprm.robcent''),
      (''MyException'', PyObj ''ppdire.ppdire.MyException''),
      (''warnings'', PyObj ''warnings''),
      (''ppdire'', PyObj ''ppdire.ppdire.ppdire'')]"

definition load_global :: "(string \<times> pyobj) list \<Rightarrow> string \<Rightarrow> error + pyobj" where
  "load_global g name = (case map_of g name of None \<Rightarrow> Inl (NameError name) | Some v \<Rightarrow> Inr v)"

text \<open>The libraries \<open>fit\<close> calls: \<open>sprm.robcent\<close> (fit: centred and scaled data, locations,
  scales), \<open>numpy.linalg.svd\<close>, \<open>scipy.linalg.pinv2\<close>, \<open>sprm.rm\<close>,
  \<open>statsmodels QuantReg\<close>, \<open>scipy.stats.trim_mean\<close> and \<open>numpy.median\<close>.\<close>

record collab =
  robcent_fit :: "string \<Rightarrow> string \<Rightarrow> mat \<Rightarrow> real \<Rightarrow> mat \<times> vec \<times> vec"
  np_svd :: "mat \<Rightarrow> mat \<times> vec \<times> mat"
  pinv2 :: "mat \<Rightarrow> mat"
  rm_fit :: "pyval \<times> pyval \<times> pyval \<times> pyval \<Rightarrow> string \<Rightarrow> string \<Rightarrow> vec \<Rightarrow> vec \<Rightarrow> real"
  quantreg_fit :: "vec \<Rightarrow> vec \<Rightarrow> pyval \<Rightarrow> real"
  trim_mean :: "vec \<Rightarrow> real \<Rightarrow> real"
  np_median :: "vec \<Rightarrow> real"

fun truthy :: "pyval \<Rightarrow> bool" where
  "truthy PNone = False"
| "truthy (PBool b) = b"
| "truthy (PInt i) = (i \<noteq> 0)"
| "truthy (PFloat r) = (r \<noteq> 0)"
| "truthy (PStr s) = (s \<noteq> [])"
| "truthy (PVec v) = True"
| "truthy (PMat m) = True"

text \<open>Lines 318 to 391: the optional arguments. A field is \<open>None\<close> when the source
  leaves the variable unbound.\<close>

record fit_opts =
  o_biascorr :: pyval
  o_h :: pyval
  o_ndir :: pyval
  o_maxiter :: pyval
  o_compression :: pyval
  o_mixing :: pyval
  o_y :: "pyval option"
  o_regopt :: "pyval option"
  o_quantile :: "pyval option"
  o_robust :: "(pyval \<times> pyval \<times> pyval \<times> pyval) option"

definition fit_options :: "ppdire \<Rightarrow> pyval list \<Rightarrow> pydict \<Rightarrow> fit_opts \<times> ppdire" where
  "fit_options self args kwargs =
     (let h = (if \<not> has_key ''h'' kwargs then n_components self else dict_get kwargs ''h'');
          self' = (if \<not> has_key ''h'' kwargs then self else self\<lparr>n_components := h\<rparr>);
          regopt = dict_get_default kwargs ''regopt'' (PStr ''OLS'');
          base = \<lparr> o_biascorr = dict_get_default kwargs ''biascorr'' (PBool False),
                   o_h = h,
                   o_ndir = (if \<not> has_key ''ndir'' kwargs then PInt 1000 else dict_get kwargs ''ndir''),
                   o_maxiter = (if \<not> has_key ''maxiter'' kwargs then PInt 10000 else dict_get kwargs ''maxiter''),
                   o_compression = (if \<not> has_key ''compression'' kwargs then PBool False else dict_get kwargs ''compression''),
                   o_mixing = (if \<not> has_key ''mixing'' kwargs then PBool False else dict_get kwargs ''mixing''),
                   o_y = None, o_regopt = None, o_quantile = None, o_robust = None \<rparr>
      in if \<not> has_key ''y'' kwargs then
           (case args of
              y # _ \<Rightarrow> (base\<lparr>o_y := Some y, o_regopt := Some regopt\<rparr>, self')
            | [] \<Rightarrow> (base, self'))
         else
           (base\<lparr> o_y := Some (dict_get kwargs ''y''),
                  o_regopt := Some regopt,
                  o_quantile := Some (if \<not> has_key ''quantile'' kwargs then PFloat (1 / 2) else dict_get kwargs ''quantile''),
                  o_robust := (if regopt = PStr ''robust''
                               then Some (if \<not> has_key ''fun'' kwargs then PStr ''Hampel'' else dict_get kwargs ''fun'',
                                          if \<not> has_key ''probp1'' kwargs then PFloat (95 / 100) else dict_get kwargs ''probp1'',
                                          if \<not> has_key ''probp2'' kwargs then PFloat (975 / 1000) else dict_get kwargs ''probp2'',
                                          if \<not> has_key ''probp3'' kwargs then PFloat (99 / 100) else dict_get kwargs ''probp3'')
                               else None) \<rparr>, self'))"

text \<open>Lines 394 to 404. The name \<open>dicomo\<close> is looked up in the module's namespace each
  time the comparison is evaluated; the option read on lines 398 to 404 is only printed.\<close>

definition check_dicomo :: "(string \<times> pyobj) list \<Rightarrow> ppdire \<Rightarrow> error + unit" where
  "check_dicomo g self =
     (case load_global g ''dicomo'' of
        Inl e \<Rightarrow> Inl e
      | Inr d \<Rightarrow>
          if projection_index self = d then
            (case map_of (pi_arguments self) ''mode'' of
               None \<Rightarrow> Inl (KeyError ''mode'')
             | Some m \<Rightarrow> Inr ())
          else Inr ())"

text \<open>Lines 420 and 421.\<close>

definition check_dimensions :: "pyval \<Rightarrow> nat \<Rightarrow> nat \<Rightarrow> error + int" where
  "check_dimensions h n p =
     (case h of
        PInt i \<Rightarrow>
          if i > int (min n p) then Inl (MyException ''number of components cannot exceed number of samples'')
          else Inr i
      | PFloat r \<Rightarrow>
          if r > real (min n p) then Inl (MyException ''number of components cannot exceed number of samples'')
          else Inl (TypeError ''np.zeros((p,h))'')
      | _ \<Rightarrow> Inl (TypeError ''h > min(n,p)''))"

text \<open>Lines 434 to 441.\<close>

definition scale_option :: "ppdire \<Rightarrow> string option" where
  "scale_option self =
     (if scale_data self then
        (if center self = ''mean'' then Some ''std''
         else if center self = ''median'' then Some ''mad''
         else None)
      else Some ''None'')"

definition diag :: "vec \<Rightarrow> mat" where
  "diag S = map (\<lambda>i. (replicate (length S) 0)[i := S ! i]) [0..<length S]"

definition zeros :: "nat \<Rightarrow> nat \<Rightarrow> mat" where
  "zeros r c = replicate r (replicate c 0)"

definition set_col :: "mat \<Rightarrow> nat \<Rightarrow> vec \<Rightarrow> mat" where
  "set_col M i v = map2 (\<lambda>row x. row[i := x]) M v"

definition first_cols :: "mat \<Rightarrow> nat \<Rightarrow> mat" where
  "first_cols M k = map (take k) M"

text \<open>What lines 407 to 500 leave behind for the rest of the method.\<close>

record prep =
  q_self :: ppdire
  q_X0 :: mat
  q_n :: nat
  q_p :: nat
  q_h :: int
  q_scale :: string
  q_dimensions :: bool
  q_V :: mat
  q_Xs :: mat
  q_mX :: vec
  q_sX :: vec
  q_K :: mat
  q_y :: vec
  q_ys :: "vec option"
  q_my :: real
  q_sy :: real

text \<open>Lines 476 to 499: the response, when there is one.\<close>

definition prepare_y :: "collab \<Rightarrow> ppdire \<Rightarrow> string \<Rightarrow> nat \<Rightarrow> pyval option \<Rightarrow> error + (vec \<times> vec option \<times> real \<times> real)" where
  "prepare_y ext self scale n yo =
     (case yo of
        None \<Rightarrow> Inr ([], None, 0, 1)
      | Some yv \<Rightarrow>
          (case (case yv of PVec v \<Rightarrow> Some v | PMat m \<Rightarrow> Some (col m 0) | _ \<Rightarrow> None) of
             None \<Rightarrow> Inl (AttributeError ''shape'')
           | Some y \<Rightarrow>
               if length y \<noteq> n then Inl (MyException ''X and y number of rows must agree'')
               else if center_data self then
                 (case robcent_fit ext (center self) scale (map (\<lambda>v. [v]) y) (trimming self) of
                    (ysm, [my], [sy]) \<Rightarrow> Inr (y, Some (col ysm 0), my, sy)
                  | _ \<Rightarrow> Inl (ValueError ''sy/sX''))
               else Inr (y, Some y, 0, 1)))"

text \<open>Lines 407 to 500.\<close>

definition fit_prepare :: "collab \<Rightarrow> ppdire \<Rightarrow> mat \<Rightarrow> fit_opts \<Rightarrow> error + prep" where
  "fit_prepare ext self0 X opts =
     (let self1 = self0\<lparr>most := Some (pi_new self0 (pi_arguments self0))\<rparr>;
          X0 = X;
          n0 = length X;
          p0 = ncols X
      in case check_dimensions (o_h opts) n0 p0 of
           Inl e \<Rightarrow> Inl e
         | Inr h \<Rightarrow>
             (let self2 = (if whiten_data self1 then self1\<lparr>center_data := True, scale_data := False\<rparr> else self1);
                  compression = (if whiten_data self1 then PBool False else o_compression opts)
              in case scale_option self2 of
                   None \<Rightarrow> Inl (UnboundLocalError ''scale'')
                 | Some scale \<Rightarrow>
                     (let compress = (n0 < p0 \<and> truthy compression);
                          V = (if compress then fst (np_svd ext (transpose_mat X)) else []);
                          X1 = (if compress
                                then (case np_svd ext (transpose_mat X) of
                                        (V, S, U) \<Rightarrow> matmul (transpose_mat U) (diag S))
                                else X);
                          n = length X1;
                          p = ncols X1;
                          cen = (if center_data self2
                                 then robcent_fit ext (center self2) scale X1 (trimming self2)
                                 else (X1, replicate p 0, replicate p 1));
                          Xs0 = fst cen;
                          K = (if whiten_data self2
                               then (case np_svd ext (transpose_mat Xs0) of
                                       (V, S, U) \<Rightarrow> first_cols (map (\<lambda>row. map2 (\<lambda>v s. v / s) row S) V) p)
                               else []);
                          Xs = (if whiten_data self2
                                then map (map (\<lambda>x. x * sqrt (real p))) (matmul Xs0 K)
                                else Xs0)
                      in case prepare_y ext self2 scale n (o_y opts) of
                           Inl e \<Rightarrow> Inl e
                         | Inr (y, ys, my, sy) \<Rightarrow>
                             Inr \<lparr> q_self = self2, q_X0 = X0, q_n = n, q_p = p, q_h = h,
                                   q_scale = scale, q_dimensions = compress, q_V = V, q_Xs = Xs,
                                   q_mX = fst (snd cen), q_sX = snd (snd cen), q_K = K,
                                   q_y = y, q_ys = ys, q_my = my, q_sy = sy \<rparr>)))"

text \<open>Lines 521 to 569: the grid bounds are stored on the object, and the two keyword
  dictionaries are built. \<open>alphamat2\<close> is bound only when \<open>p > 2\<close>, and line 562 reads it
  whatever \<open>p\<close> is.\<close>

definition grid_dict :: "ppdire \<Rightarrow> fit_opts \<Rightarrow> vec option \<Rightarrow> mat \<Rightarrow> pydict" where
  "grid_dict self opts ys am =
     [(''alpha'', PFloat (alpha self)), (''alphamat'', PMat am), (''ndir'', o_ndir opts),
      (''trimming'', PFloat (trimming self)), (''biascorr'', o_biascorr opts),
      (''dmetric'', PStr ''euclidean'')]
     @ (case ys of None \<Rightarrow> [] | Some f \<Rightarrow> [(''y'', PVec f)])"

definition fit_grid :: "ppdire \<Rightarrow> nat \<Rightarrow> fit_opts \<Rightarrow> vec option \<Rightarrow> error + (ppdire \<times> pydict \<times> pydict)" where
  "fit_grid self p opts ys =
     (case o_ndir opts of
        PInt nd \<Rightarrow>
          if nd < 0 then Inl (ValueError ''Number of samples must be non-negative'')
          else (let b = sector self (snd (optrange self));
                    self' = self\<lparr>cached := Some b\<rparr>
                in if 2 < p
                   then Inr (self', grid_dict self opts ys (coarse_alphamat b (nat nd)),
                             grid_dict self opts ys (refine_alphamat b (nat nd)))
                   else Inl (UnboundLocalError ''alphamat2''))
      | _ \<Rightarrow> Inl (TypeError ''ndir''))"

text \<open>Lines 575 to 663: the direction of one component, and the value stored in
  \<open>Maxobjf[i]\<close> when \<open>p > 2\<close>. For \<open>p < 2\<close> no branch binds \<open>wi\<close>.\<close>

definition find_direction :: "ppdire \<Rightarrow> mat \<Rightarrow> nat \<Rightarrow> pydict \<Rightarrow> pydict \<Rightarrow> pyval \<Rightarrow> error + (vec \<times> real option \<times> ppdire)" where
  "find_direction self E p grid_args grid_args_2 maxiter =
     (if p = 2 then
        (case gridplane self E [] grid_args of
           Inl e \<Rightarrow> Inl e
         | Inr ((wi, maximo), self') \<Rightarrow> Inr (wi, None, self'))
      else if 2 < p then
        (case reduce self E p grid_args grid_args_2 maxiter of
           Inl e \<Rightarrow> Inl e
         | Inr (wi, objf, ii, self') \<Rightarrow> Inr (wi, Some objf, self'))
      else Inl (UnboundLocalError ''wi''))"

text \<open>Lines 669 to 671.\<close>

definition unwhiten :: "ppdire \<Rightarrow> mat \<Rightarrow> vec \<Rightarrow> error + vec" where
  "unwhiten self K wi =
     (if whiten_data self then
        (if euclid_norm wi = 0 then Inl (NonFinite ''wi / norm'')
         else Inr (matvec K (map (\<lambda>w. w / euclid_norm wi) wi)))
      else Inr wi)"

text \<open>Lines 698 to 709: the regression of the response on the score.\<close>

definition regress :: "collab \<Rightarrow> ppdire \<Rightarrow> prep \<Rightarrow> fit_opts \<Rightarrow> vec \<Rightarrow> vec \<Rightarrow> error + real" where
  "regress ext self q opts ti ys =
     (if o_regopt opts = Some (PStr ''OLS'') then Inr (dot ti ys / (euclid_norm ti)\<^sup>2)
      else if o_regopt opts = Some (PStr ''robust'') then
        (case o_robust opts of
           None \<Rightarrow> Inl (UnboundLocalError ''fun'')
         | Some ps \<Rightarrow> Inr (rm_fit ext ps (center self) (q_scale q) ti ys))
      else if o_regopt opts = Some (PStr ''quantile'') then
        (case o_quantile opts of
           None \<Rightarrow> Inl (UnboundLocalError ''quantile'')
         | Some qu \<Rightarrow> Inr (quantreg_fit ext (q_y q) ti qu))
      else Inl (UnboundLocalError ''ci''))"

record comp_state =
  c_self :: ppdire
  c_E :: mat
  c_W :: mat
  c_T :: mat
  c_P :: mat
  c_R :: mat
  c_B :: mat
  c_B_scaled :: mat
  c_C :: vec
  c_assovec :: vec
  c_Maxobjf :: vec
  c_bi :: vec

text \<open>Lines 696 to 717: the coefficients, when there is a response.\<close>

definition coefficients :: "collab \<Rightarrow> prep \<Rightarrow> fit_opts \<Rightarrow> nat \<Rightarrow> vec \<Rightarrow> comp_state \<Rightarrow> error + comp_state" where
  "coefficients ext q opts i ti st =
     (case q_ys q of
        None \<Rightarrow> Inr st
      | Some ys \<Rightarrow>
          (case regress ext (c_self st) q opts ti ys of
             Inl e \<Rightarrow> Inl e
           | Inr ci \<Rightarrow>
               if length (q_sX q) \<noteq> q_p q then Inl (ValueError ''cannot reshape array'')
               else if 0 \<in> set (q_sX q) then Inl (NonFinite ''sy/sX'')
               else (let C = (c_C st)[i := ci];
                         bi_scaled = matvec (c_R st) (take (i + 1) C);
                         bi = map2 (\<lambda>s b. q_sy q / s * b) (q_sX q) bi_scaled
                     in if length bi_scaled \<noteq> q_p q
                        then Inl (ValueError ''operands could not be broadcast together'')
                        else Inr (st\<lparr> c_C := C, c_bi := bi,
                                     c_B := set_col (c_B st) i bi,
                                     c_B_scaled := set_col (c_B_scaled st) i bi_scaled \<rparr>))))"

text \<open>Lines 573 to 717: the extraction of component \<open>i\<close>.\<close>

definition component :: "collab \<Rightarrow> prep \<Rightarrow> fit_opts \<Rightarrow> pydict \<Rightarrow> pydict \<Rightarrow> nat \<Rightarrow> comp_state \<Rightarrow> error + comp_state" where
  "component ext q opts grid_args grid_args_2 i st =
     (case find_direction (c_self st) (c_E st) (q_p q) grid_args grid_args_2 (o_maxiter opts) of
        Inl e \<Rightarrow> Inl e
      | Inr (wi, mo, self') \<Rightarrow>
          (case deflate (c_E st) wi of
             Inl e \<Rightarrow> Inl e
           | Inr (ti, pli, E') \<Rightarrow>
               (case unwhiten self' (q_K q) wi of
                  Inl e \<Rightarrow> Inl e
                | Inr wi0 \<Rightarrow>
                    (case (if q_ys q = None then Inr (c_assovec st)
                           else (case most self' of
                                   None \<Rightarrow> Inl (AttributeError ''most'')
                                 | Some f \<Rightarrow>
                                     Inr ((c_assovec st)[i := objective self' f grid_args (matvec (c_E st) wi0)]))) of
                       Inl e \<Rightarrow> Inl e
                     | Inr assovec \<Rightarrow>
                         (let W = set_col (c_W st) i wi0;
                              T = set_col (c_T st) i ti;
                              P = set_col (c_P st) i pli;
                              R = matmul (first_cols W (i + 1))
                                    (pinv2 ext (matmul (transpose_mat (first_cols P (i + 1))) (first_cols W (i + 1))))
                          in coefficients ext q opts i ti
                               (st\<lparr> c_self := self', c_E := E', c_W := W, c_T := T, c_P := P, c_R := R,
                                    c_assovec := assovec,
                                    c_Maxobjf := (case mo of None \<Rightarrow> c_Maxobjf st
                                                  | Some v \<Rightarrow> (c_Maxobjf st)[i := v]) \<rparr>))))))"

definition initial_state :: "prep \<Rightarrow> ppdire \<Rightarrow> comp_state" where
  "initial_state q self =
     (let p = q_p q; n = q_n q; h = nat (q_h q)
      in \<lparr> c_self = self, c_E = q_Xs q, c_W = zeros p h, c_T = zeros n h, c_P = zeros p h,
           c_R = zeros p h, c_B = zeros p h, c_B_scaled = zeros p h, c_C = replicate h 0,
           c_assovec = replicate h 0, c_Maxobjf = replicate h 0, c_bi = replicate p 0 \<rparr>)"

section \<open>The fitted attributes and \<open>predict\<close>\<close>

text \<open>The attribute \<open>coef_\<close> is the field \<open>attr_coef\<close>, and so on for the others.\<close>

record response_attrs =
  attr_coef :: mat
  attr_intercept :: real
  attr_coef_scaled :: mat
  attr_intercept_scaled :: real
  attr_residuals :: vec
  attr_fitted :: vec
  attr_y_loadings :: vec
  attr_y_loc :: real
  attr_y_sca :: real

record fitted =
  response :: "response_attrs option"
  attr_x_weights :: mat
  attr_x_loadings :: mat
  attr_x_rotations :: mat
  attr_x_scores :: mat
  attr_crit_values :: vec
  attr_Maxobjf :: vec
  attr_x_loc :: vec
  attr_x_sca :: vec
  scaling :: string

definition np_mean :: "vec \<Rightarrow> real" where
  "np_mean v = sum_list v / real (length v)"

definition vec_sub :: "vec \<Rightarrow> vec \<Rightarrow> vec" where
  "vec_sub u v = map2 (\<lambda>a b. a - b) u v"

text \<open>Lines 738 to 765: intercepts, fitted values and residuals, from the last
  coefficient vector \<open>bi\<close>.\<close>

definition response_of :: "collab \<Rightarrow> ppdire \<Rightarrow> prep \<Rightarrow> mat \<Rightarrow> mat \<Rightarrow> mat \<Rightarrow> vec \<Rightarrow> vec \<Rightarrow> vec \<Rightarrow> response_attrs" where
  "response_of ext self q Xs B B_scaled C bi ys =
     (let y = q_y q;
          X0 = q_X0 q;
          intercept = (if center self = ''mean''
                       then trim_mean ext (vec_sub y (matvec X0 bi)) (trimming self)
                       else np_median ext (vec_sub y (matvec X0 bi)));
          yfit = map (\<lambda>v. v + intercept) (matvec X0 bi);
          b0 = (if q_scale q \<noteq> ''None''
                then (if center self = ''mean''
                      then np_mean (vec_sub ys (matvec Xs bi))
                      else np_median ext (vec_sub ys (matvec Xs bi)))
                else intercept)
      in \<lparr> attr_coef = B, attr_intercept = intercept, attr_coef_scaled = B_scaled, attr_intercept_scaled = b0,
           attr_residuals = vec_sub y yfit, attr_fitted = yfit, attr_y_loadings = C,
           attr_y_loc = q_my q, attr_y_sca = q_sy q \<rparr>)"

text \<open>Lines 721 to 790. With compression the estimates are mapped back through \<open>V\<close>, and
  \<open>bi\<close> is read again from column \<open>h - 1\<close> of \<open>B\<close>.\<close>

definition fit_finish :: "collab \<Rightarrow> prep \<Rightarrow> comp_state \<Rightarrow> error + (mat \<times> ppdire \<times> fitted)" where
  "fit_finish ext q st =
     (let self = c_self st;
          back = (\<lambda>M. if q_dimensions q then matmul (first_cols (q_V q) (q_p q)) M else M);
          B = back (c_B st);
          B_scaled = back (c_B_scaled st);
          cen = (if q_dimensions q
                 then (if center_data self
                       then robcent_fit ext (center self) (q_scale q) (q_X0 q) (trimming self)
                       else (q_X0 q, replicate (q_p q) 0, replicate (q_p q) 1))
                 else (q_Xs q, q_mX q, q_sX q))
      in if q_dimensions q \<and> q_h q = 0 then Inl (ValueError ''B[:,h-1]'')
         else (let bi = (if q_dimensions q then col B (nat (q_h q) - 1) else c_bi st)
               in Inr (c_T st, self,
                       \<lparr> response = (case q_ys q of
                                       None \<Rightarrow> None
                                     | Some ys \<Rightarrow> Some (response_of ext self q (fst cen) B B_scaled (c_C st) bi ys)),
                         attr_x_weights = back (c_W st), attr_x_loadings = back (c_P st),
                         attr_x_rotations = back (c_R st), attr_x_scores = c_T st,
                         attr_crit_values = c_assovec st, attr_Maxobjf = c_Maxobjf st,
                         attr_x_loc = fst (snd cen), attr_x_sca = snd (snd cen), scaling = q_scale q \<rparr>)))"

text \<open>The method \<open>fit\<close>. The second reading of \<open>dicomo\<close> on line 423 only decides a
  warning, and finds the name as line 394 found it.\<close>

definition fit :: "(string \<times> pyobj) list \<Rightarrow> collab \<Rightarrow> ppdire \<Rightarrow> mat \<Rightarrow> pyval list \<Rightarrow> pydict \<Rightarrow> error + (mat \<times> ppdire \<times> fitted)" where
  "fit g ext self X args kwargs =
     (case fit_options self args kwargs of
        (opts, self1) \<Rightarrow>
          (case check_dicomo g self1 of
             Inl e \<Rightarrow> Inl e
           | Inr u \<Rightarrow>
               (case fit_prepare ext self1 X opts of
                  Inl e \<Rightarrow> Inl e
                | Inr q \<Rightarrow>
                    if q_h q < 0 then Inl (ValueError ''negative dimensions are not allowed'')
                    else (case fit_grid (q_self q) (q_p q) opts (q_ys q) of
                            Inl e \<Rightarrow> Inl e
                          | Inr (self2, grid_args, grid_args_2) \<Rightarrow>
                              (case foldE (component ext q opts grid_args grid_args_2)
                                      [0..<nat (q_h q)] (initial_state q self2) of
                                 Inl e \<Rightarrow> Inl e
                               | Inr st \<Rightarrow> fit_finish ext q st)))))"

text \<open>Lines 793 to 797.\<close>

definition predict :: "fitted \<Rightarrow> mat \<Rightarrow> error + mat" where
  "predict m Xn =
     (case response m of
        None \<Rightarrow> Inl (AttributeError ''attr_coef'')
      | Some r \<Rightarrow>
          if ncols Xn \<noteq> length (attr_coef r)
          then Inl (ValueError ''New data must have seame number of columns as the ones the model has been trained with'')
          else Inr (map (map (\<lambda>v. v + attr_intercept r)) (matmul Xn (attr_coef r))))"


section \<open>Example inputs\<close>

text \<open>A projection index that sums the scores, an estimator object as the constructor
  leaves it (with that index installed), and the keyword arguments \<open>grid_args\<close> that
  \<open>fit\<close> builds for \<open>ndir = 2\<close>.\<close>

definition sum_index :: evaluator where
  "sum_index pa t = sum_list t"

definition demo_self :: ppdire where
  "demo_self =
     \<lparr> projection_index = PyObj ''sum_index'', pi_new = (\<lambda>kw. sum_index),
       pi_arguments = [], n_components = PInt 1, trimming = 0, alpha = 1, center = ''mean'',
       center_data = True, scale_data = True, whiten_data = False, square_pi = False,
       copy = True, verbose = True, return_scaling_object = True, constraint = ''norm'',
       optrange = (- 1, 1), most = Some sum_index, cached = None \<rparr>"


text \<open>A call of \<open>fit\<close> on one observation of three variables with the response 5,
  \<open>ndir = 1\<close>, \<open>maxiter = 1\<close> and no centring: the keyword arguments \<open>grid_args\<close> and
  \<open>grid_args_2\<close> that \<open>fit\<close> builds, and the object once \<open>fit\<close> has stored the grid
  bounds on it.\<close>

definition demo_args1 :: pydict where
  "demo_args1 =
     [(''alpha'', PFloat 1), (''alphamat'', PMat [[1], [0]]), (''ndir'', PInt 1),
      (''trimming'', PFloat 0), (''biascorr'', PBool False), (''dmetric'', PStr ''euclidean''),
      (''y'', PVec [5])]"

definition demo_args2 :: pydict where
  "demo_args2 =
     [(''alpha'', PFloat 1), (''alphamat'', PMat [[0], [- 1]]), (''ndir'', PInt 1),
      (''trimming'', PFloat 0), (''biascorr'', PBool False), (''dmetric'', PStr ''euclidean''),
      (''y'', PVec [5])]"

definition demo_self2 :: ppdire where
  "demo_self2 = demo_self\<lparr>center_data := False\<rparr>"

definition demo_fit_self :: ppdire where
  "demo_fit_self = demo_self2\<lparr>cached := Some (sector demo_self 1)\<rparr>"

definition demo_Z :: mat where
  "demo_Z = [[1, 2, 2000]]"

definition demo_fit_kwargs :: pydict where
  "demo_fit_kwargs = [(''ndir'', PInt 1), (''maxiter'', PInt 1)]"

text \<open>A namespace in which \<open>dicomo\<close> is bound, as the import on line 12 would bind it.\<close>

definition demo_globals :: "(string \<times> pyobj) list" where
  "demo_globals = (''dicomo'', PyObj ''ppdire.dicomo.dicomo'') # module_globals"

text \<open>Stand-ins for the libraries, right at the inputs of the example: the pseudo-inverse
  of a 1 by 1 matrix, and the trimmed mean at trimming 0, which is the mean. The example
  never reaches the others.\<close>

definition pinv_1x1 :: "mat \<Rightarrow> mat" where
  "pinv_1x1 M = (case M of [[a]] \<Rightarrow> [[if a = 0 then 0 else 1 / a]] | _ \<Rightarrow> M)"

definition demo_ext :: collab where
  "demo_ext =
     \<lparr> robcent_fit = (\<lambda>c sc X t. (X, replicate (ncols X) 0, replicate (ncols X) 1)),
       np_svd = (\<lambda>X. (X, [], X)),
       pinv2 = pinv_1x1,
       rm_fit = (\<lambda>ps c sc t y. 0),
       quantreg_fit = (\<lambda>y t qu. 0),
       trim_mean = (\<lambda>v t. np_mean v),
       np_median = np_mean \<rparr>"

section \<open>Properties of the grid search\<close>













section \<open>The unbound name in \<open>fit\<close>\<close>

text \<open>
  Claim C2. In the module's namespace the name \<open>dicomo\<close> is unbound, so every call of
  \<open>fit\<close>, whatever the object, the data and the arguments, ends on line 394 with a
  \<open>NameError\<close>, before the projection index is built and before any component is extracted.
\<close>

theorem fit_raises_NameError:
  "fit module_globals ext self X args kwargs = Inl (NameError ''dicomo'')"
  by (simp add: fit_def check_dicomo_def load_global_def module_globals_def split: prod.splits)


theorem fit_raises_NameError_witness:
  "\<forall>ext. fit module_globals ext demo_self [[1, 2, 3], [4, 5, 6], [7, 8, 10]] [] []
          = Inl (NameError ''dicomo'')"
  using fit_raises_NameError by blast

section \<open>The two angular grids\<close>







lemma sector_demo:
  "sector demo_self 1 = \<lparr> stop0c = 0, stop0s = - (pi / 2), stop1c = pi, stop1s = pi / 2, optmax = 1 \<rparr>"
  by (simp add: sector_def demo_self_def)






section \<open>Deflation\<close>

lemma dot_sum: "length u = length v \<Longrightarrow> dot u v = (\<Sum>i<length u. u ! i * v ! i)"
  by (simp add: dot_def sum_list_sum_nth atLeast0LessThan)

lemma euclid_norm_sq: "(euclid_norm v)\<^sup>2 = (\<Sum>i<length v. v ! i * v ! i)"
proof -
  have "0 \<le> sum_list (map (\<lambda>x. x * x) v)" by (rule sum_list_nonneg) auto
  then show ?thesis by (simp add: euclid_norm_def sum_list_sum_nth atLeast0LessThan)
qed

lemma deflate_orthogonal_col:
  assumes d: "deflate E wi = Inr (ti, pli, E')"
      and shape: "\<forall>r\<in>set E. length r = p"
      and j: "j < p"
  shows "dot ti (col E' j) = 0"
proof -
  let ?n = "length E"
  have ti: "ti = matvec E wi" and nz: "euclid_norm ti \<noteq> 0"
    and pli: "pli = map (\<lambda>x. x / (euclid_norm ti)\<^sup>2) (matvec (transpose_mat E) ti)"
    and E': "E' = map2 (\<lambda>row t. map2 (\<lambda>e q. e - t * q) row pli) E ti"
    using d by (auto simp: deflate_def Let_def split: if_splits)
  have lti: "length ti = ?n" by (simp add: ti matvec_def)
  have ne: "E \<noteq> []" using nz ti by (auto simp: matvec_def euclid_norm_def)
  then have nc: "ncols E = p" using shape by (cases E) (auto simp: ncols_def)
  have lpl: "length pli = p" by (simp add: pli matvec_def transpose_mat_def nc)
  have rows: "\<And>r. r < ?n \<Longrightarrow> length (E ! r) = p" using shape by simp
  have plj: "pli ! j = dot (col E j) ti / (euclid_norm ti)\<^sup>2"
    using j by (simp add: pli matvec_def transpose_mat_def nc)
  have dj: "dot (col E j) ti = (\<Sum>r<?n. E ! r ! j * ti ! r)"
    using lti by (subst dot_sum) (simp_all add: col_def)
  have lE': "length E' = ?n" by (simp add: E' lti)
  have E'rj: "\<And>r. r < ?n \<Longrightarrow> col E' j ! r = E ! r ! j - ti ! r * pli ! j"
    using lti lpl rows j by (simp add: E' col_def)
  have "dot ti (col E' j) = (\<Sum>r<?n. ti ! r * col E' j ! r)"
    using lti lE' by (subst dot_sum) (simp_all add: col_def)
  also have "\<dots> = (\<Sum>r<?n. E ! r ! j * ti ! r - pli ! j * (ti ! r * ti ! r))"
    by (rule sum.cong) (simp_all add: E'rj algebra_simps)
  also have "\<dots> = (\<Sum>r<?n. E ! r ! j * ti ! r) - pli ! j * (\<Sum>r<?n. ti ! r * ti ! r)"
    by (simp add: sum_subtractf sum_distrib_left)
  also have "(\<Sum>r<?n. ti ! r * ti ! r) = (euclid_norm ti)\<^sup>2"
    using lti by (simp add: euclid_norm_sq)
  also have "(\<Sum>r<?n. E ! r ! j * ti ! r) - pli ! j * (euclid_norm ti)\<^sup>2 = 0"
    using nz by (simp add: plj dj)
  finally show ?thesis .
qed

lemma euclid_norm_zero_iff: "euclid_norm v = 0 \<longleftrightarrow> (\<forall>x\<in>set v. x = 0)"
proof -
  have nn: "\<And>x. x \<in> set (map (\<lambda>x. x * x) v) \<Longrightarrow> 0 \<le> x" by auto
  have "sum_list (map (\<lambda>x. x * x) v) = 0 \<longleftrightarrow> (\<forall>x\<in>set (map (\<lambda>x. x * x) v). x = 0)"
    by (rule sum_list_nonneg_eq_0_iff) (use nn in blast)
  then show ?thesis by (auto simp: euclid_norm_def)
qed

text \<open>
  Claim C6. For a residual \<open>E\<close> with \<open>p\<close> columns and a direction \<open>wi\<close> whose score
  \<open>E wi\<close> is not the zero vector, the deflation returns the score \<open>ti = E wi\<close>, the loading
  \<open>pi = E\<^sup>T ti / (ti\<^sup>T ti)\<close> and the residual \<open>E - ti pi\<^sup>T\<close>, and the score has inner
  product zero with every column of the new residual.
\<close>

theorem deflation_orthogonal:
  assumes shape: "\<forall>r\<in>set E. length r = p"
      and nz: "\<exists>t\<in>set (matvec E wi). t \<noteq> 0"
      and j: "j < p"
  shows "\<exists>ti pli E'.
           deflate E wi = Inr (ti, pli, E')
         \<and> ti = matvec E wi
         \<and> length pli = p
         \<and> pli ! j = dot (col E j) ti / dot ti ti
         \<and> length E' = length E
         \<and> (\<forall>r<length E. length (E' ! r) = p \<and> E' ! r ! j = E ! r ! j - ti ! r * pli ! j)
         \<and> dot ti (col E' j) = 0"
proof -
  let ?n = "length E"
  let ?ti = "matvec E wi"
  let ?pli = "map (\<lambda>x. x / (euclid_norm ?ti)\<^sup>2) (matvec (transpose_mat E) ?ti)"
  let ?E' = "map2 (\<lambda>row t. map2 (\<lambda>e q. e - t * q) row ?pli) E ?ti"
  have nz': "euclid_norm ?ti \<noteq> 0" using nz by (simp add: euclid_norm_zero_iff)
  have d: "deflate E wi = Inr (?ti, ?pli, ?E')"
    using nz' by (simp add: deflate_def Let_def)
  have lti: "length ?ti = ?n" by (simp add: matvec_def)
  have ne: "E \<noteq> []" using nz by (auto simp: matvec_def)
  then have nc: "ncols E = p" using shape by (cases E) (auto simp: ncols_def)
  have lpl: "length ?pli = p" by (simp add: matvec_def transpose_mat_def nc)
  have rows: "\<And>r. r < ?n \<Longrightarrow> length (E ! r) = p" using shape by simp
  have n2: "(euclid_norm ?ti)\<^sup>2 = dot ?ti ?ti"
    using lti by (simp add: euclid_norm_sq dot_sum)
  have plj: "?pli ! j = dot (col E j) ?ti / dot ?ti ?ti"
    using j by (simp add: matvec_def transpose_mat_def nc n2 [unfolded matvec_def])
  have lE': "length ?E' = ?n" by (simp add: lti)
  have E'r: "length (?E' ! r) = p \<and> ?E' ! r ! j = E ! r ! j - ?ti ! r * ?pli ! j" if "r < ?n" for r
    using that lti lpl rows j by simp
  have orth: "dot ?ti (col ?E' j) = 0"
    by (rule deflate_orthogonal_col [OF d shape j])
  from d lpl plj lE' E'r orth show ?thesis by blast
qed


lemma deflate_demo2:
  "deflate [[1, 2], [3, 4]] [1, 1]
     = Inr ([3, 7], [12 / 29, 17 / 29], [[- (7 / 29), 7 / 29], [3 / 29, - (3 / 29)]])"
proof -
  have t: "matvec [[1, 2], [3, 4]] [1, 1] = [3, 7]" by (simp add: matvec_def dot_def)
  have n: "euclid_norm [3, 7] \<noteq> 0" by (simp add: euclid_norm_def)
  have n2: "(euclid_norm [3, 7])\<^sup>2 = 58" by (simp add: euclid_norm_def)
  have tr: "transpose_mat [[1, 2], [3, 4]] = [[1, 3], [2, 4]]"
    by (simp add: transpose_mat_def ncols_def col_def upt_rec numeral_2_eq_2)
  show ?thesis
    by (simp add: deflate_def t n n2 Let_def tr) (simp add: matvec_def dot_def)
qed

theorem deflation_orthogonal_witness:
  "deflate [[1, 2], [3, 4]] [1, 1]
     = Inr ([3, 7], [12 / 29, 17 / 29], [[- (7 / 29), 7 / 29], [3 / 29, - (3 / 29)]])
   \<and> dot [3, 7] (col [[1, 2], [3, 4]] 0) = 24
   \<and> dot [3, 7] (col [[- (7 / 29), 7 / 29], [3 / 29, - (3 / 29)]] 0) = 0"
proof -
  have h1: "\<forall>r\<in>set [[1, 2], [3, 4::real]]. length r = 2" by simp
  have h2: "\<exists>t\<in>set (matvec [[1, 2], [3, 4]] [1, 1]). t \<noteq> 0" by (simp add: matvec_def dot_def)
  have h3: "(0::nat) < 2" by simp
  from deflation_orthogonal [OF h1 h2 h3] obtain ti pli E' where
    d: "deflate [[1, 2], [3, 4]] [1, 1] = Inr (ti, pli, E')" and o: "dot ti (col E' 0) = 0"
    by blast
  from d have "ti = [3, 7]" "E' = [[- (7 / 29), 7 / 29], [3 / 29, - (3 / 29)]]"
    by (simp_all add: deflate_demo2)
  with o have "dot [3, 7] (col [[- (7 / 29), 7 / 29], [3 / 29, - (3 / 29)]] 0) = 0" by simp
  moreover have "dot [3, 7] (col [[1, 2], [3, 4]] 0) = 24" by (simp add: dot_def col_def)
  ultimately show ?thesis using deflate_demo2 by simp
qed


section \<open>The subdivision count passed to the refiner\<close>

lemma round_log2_bounds:
  fixes m :: int
  assumes m: "1 \<le> m"
  shows "0 \<le> round (log 2 (real_of_int m))"
    and "2 ^ (2 * nat (round (log 2 (real_of_int m)))) \<le> 2 * m\<^sup>2"
    and "m\<^sup>2 < 2 * 2 ^ (2 * nat (round (log 2 (real_of_int m))))"
proof -
  let ?x = "log 2 (real_of_int m)"
  let ?r = "round ?x"
  let ?e = "nat ?r"
  have mpos: "0 < real_of_int m" using m by simp
  have x0: "0 \<le> ?x" using m by simp
  have lo: "real_of_int ?r \<le> ?x + 1 / 2" and hi: "?x + 1 / 2 < real_of_int ?r + 1"
    unfolding round_def by linarith+
  show r0: "0 \<le> ?r" using x0 unfolding round_def by simp
  then have e: "real ?e = real_of_int ?r" by simp
  have px: "2 powr ?x = real_of_int m" using mpos by simp
  have p2x: "2 powr (2 * ?x) = (real_of_int m)\<^sup>2"
    using px by (metis mult.commute powr_powr powr_numeral numeral_2_eq_2 power2_eq_square
        powr_ge_zero powr_realpow zero_less_numeral of_nat_numeral)
  have pe: "2 powr (real (2 * ?e)) = (2::real) ^ (2 * ?e)"
    by (rule powr_realpow) simp
  have "2 powr (real (2 * ?e)) \<le> 2 powr (2 * ?x + 1)"
    using lo e by (intro powr_mono) auto
  also have "\<dots> = 2 * (real_of_int m)\<^sup>2"
    by (simp add: powr_add p2x)
  finally have A: "(2::real) ^ (2 * ?e) \<le> 2 * (real_of_int m)\<^sup>2" using pe by simp
  have "2 powr (2 * ?x) < 2 powr (real (2 * ?e) + 1)"
    using hi e by (intro powr_less_mono) auto
  also have "\<dots> = 2 * 2 ^ (2 * ?e)" using pe by (simp add: powr_add)
  finally have B: "(real_of_int m)\<^sup>2 < 2 * 2 ^ (2 * ?e)" using p2x by simp
  have "real_of_int (2 ^ (2 * ?e)) \<le> real_of_int (2 * m\<^sup>2)" using A by simp
  then show "2 ^ (2 * ?e) \<le> 2 * m\<^sup>2" by (simp only: of_int_le_iff)
  have "real_of_int (m\<^sup>2) < real_of_int (2 * 2 ^ (2 * ?e))" using B by simp
  then show "m\<^sup>2 < 2 * 2 ^ (2 * ?e)" by (simp only: of_int_less_iff)
qed

lemma round_log2_3: "nat (round (log 2 (real_of_int 3))) = 2"
proof -
  let ?e = "nat (round (log 2 (real_of_int 3)))"
  have A: "(2::int) ^ (2 * ?e) \<le> 2 * 3\<^sup>2" and B: "(3::int)\<^sup>2 < 2 * 2 ^ (2 * ?e)"
    using round_log2_bounds(2,3) [of 3] by simp_all
  have "?e \<le> 2"
  proof (rule ccontr)
    assume "\<not> ?e \<le> 2"
    then have "6 \<le> 2 * ?e" by simp
    then have "(2::int) ^ 6 \<le> 2 ^ (2 * ?e)" by (intro power_increasing) auto
    with A show False by simp
  qed
  moreover have "2 \<le> ?e"
  proof (rule ccontr)
    assume "\<not> 2 \<le> ?e"
    then have "2 * ?e \<le> 2" by simp
    then have "(2::int) ^ (2 * ?e) \<le> 2 ^ 2" by (intro power_increasing) auto
    with B show False by simp
  qed
  ultimately show ?thesis by simp
qed

lemma floor_log2_3: "nat \<lfloor>log 2 (real_of_int 3)\<rfloor> = 1"
proof -
  have "\<lfloor>log 2 (3::real)\<rfloor> = 1"
  proof (rule floor_unique)
    show "real_of_int 1 \<le> log 2 3" using log_le_cancel_iff [of 2 2 3] by simp
    have "log 2 (3::real) < log 2 4" by (subst log_less_cancel_iff) auto
    also have "log 2 (4::real) = 2" using log_pow_cancel [of 2 2] by simp
    finally show "log 2 3 < real_of_int 1 + 1" by simp
  qed
  then show ?thesis by simp
qed


lemma gridplane_2_ignores_div:
  "gridplane_2 self X q d pi_args kwargs = gridplane_2 self X q d' pi_args kwargs"
  by (simp add: gridplane_2_def)

text \<open>
  Claim C4, as the code has it. For \<open>maxiter \<ge> 1\<close> the cap is \<open>2 ^ e\<close> with \<open>e\<close> the binary
  logarithm of \<open>maxiter\<close> rounded to the nearest integer (not rounded down): \<open>e\<close> is the
  natural number with \<open>2 ^ (2 e) \<le> 2 maxiter\<^sup>2 < 2 ^ (2 e + 2)\<close>. In a sweep the refiner is
  called for variable \<open>j\<close> with \<open>q = afin[j]\<close> and with \<open>div\<close> equal to \<open>min (2 ^ j) (2 ^ e)\<close>
  when \<open>j \<le> 16\<close> and to the cap \<open>2 ^ e\<close> when \<open>j > 16\<close>.
\<close>

theorem refiner_subdivision_argument:
  assumes m: "1 \<le> maxiter"
  shows "\<exists>e. maxiter_2j maxiter = Inr (2 ^ e)
           \<and> e = nat (round (log 2 (real_of_int maxiter)))
           \<and> 2 ^ (2 * e) \<le> 2 * maxiter\<^sup>2 \<and> maxiter\<^sup>2 < 2 * 2 ^ (2 * e)
           \<and> divv_of (2 ^ e) j = (if j \<le> 16 then min (2 ^ j) (2 ^ e) else 2 ^ e)
           \<and> sweep_step self Z grid_args_2 (2 ^ e) j (Zopt, afin)
               = (case gridplane_2 self (projmat Zopt Z j) [afin ! j] (divv_of (2 ^ e) j) [] grid_args_2 of
                    Inl err \<Rightarrow> Inl err
                  | Inr (wi, maximo) \<Rightarrow>
                      (case wi_pair wi of
                         Inl err \<Rightarrow> Inl err
                       | Inr (w0, w1) \<Rightarrow>
                           Inr (combine Zopt Z j w0 w1,
                                (map (\<lambda>a. a * w0) afin)[j := afin ! j * w0 + w1])))"
proof -
  let ?e = "nat (round (log 2 (real_of_int maxiter)))"
  have 1: "maxiter_2j maxiter = Inr (2 ^ ?e)" using m by (simp add: maxiter_2j_def)
  have 2: "2 ^ (2 * ?e) \<le> 2 * maxiter\<^sup>2" "maxiter\<^sup>2 < 2 * 2 ^ (2 * ?e)"
    using round_log2_bounds(2,3) [OF m] by simp_all
  have 3: "divv_of (2 ^ ?e) j = (if j \<le> 16 then min (2 ^ j) (2 ^ ?e) else 2 ^ ?e)"
    by (simp add: divv_of_def)
  have 4: "sweep_step self Z grid_args_2 (2 ^ ?e) j (Zopt, afin)
               = (case gridplane_2 self (projmat Zopt Z j) [afin ! j] (divv_of (2 ^ ?e) j) [] grid_args_2 of
                    Inl err \<Rightarrow> Inl err
                  | Inr (wi, maximo) \<Rightarrow>
                      (case wi_pair wi of
                         Inl err \<Rightarrow> Inl err
                       | Inr (w0, w1) \<Rightarrow>
                           Inr (combine Zopt Z j w0 w1,
                                (map (\<lambda>a. a * w0) afin)[j := afin ! j * w0 + w1])))"
    by (simp add: sweep_step_def)
  from 1 2 3 4 show ?thesis by blast
qed

theorem refiner_subdivision_argument_witness:
  "\<exists>e. maxiter_2j 10000 = Inr (2 ^ e)
       \<and> 2 ^ (2 * e) \<le> 2 * (10000::int)\<^sup>2 \<and> (10000::int)\<^sup>2 < 2 * 2 ^ (2 * e)
       \<and> divv_of (2 ^ e) 20 = 2 ^ e"
proof -
  have h: "(1::int) \<le> 10000" by simp
  from refiner_subdivision_argument [OF h, of 20 demo_fit_self demo_Z demo_args2 "[1]" "[1, 0, 0]"]
  obtain e where "maxiter_2j 10000 = Inr (2 ^ e)"
    "2 ^ (2 * e) \<le> 2 * (10000::int)\<^sup>2" "(10000::int)\<^sup>2 < 2 * 2 ^ (2 * e)"
    "divv_of (2 ^ e) 20 = (if (20::nat) \<le> 16 then min (2 ^ 20) (2 ^ e) else 2 ^ e)"
    by blast
  then show ?thesis by (intro exI [of _ e]) simp
qed

text \<open>With \<open>maxiter = 3\<close> the cap is 4, and the refiner receives \<open>div = 4\<close> for \<open>j = 2\<close>,
  where rounding the logarithm down would give 2.\<close>

theorem refiner_subdivision_counterexample:
  "maxiter_2j 3 = Inr 4 \<and> divv_of 4 2 = 4
   \<and> min (2 ^ 2) (2 ^ nat \<lfloor>log 2 (real_of_int 3)\<rfloor>) = (2::int)"
proof -
  have "maxiter_2j 3 = Inr (2 ^ nat (round (log 2 (real_of_int 3))))"
    by (simp add: maxiter_2j_def)
  then have "maxiter_2j 3 = Inr 4" by (simp only: round_log2_3) simp
  moreover have "divv_of 4 2 = 4" by (simp add: divv_of_def)
  moreover have "min (2 ^ 2) (2 ^ nat \<lfloor>log 2 (real_of_int 3)\<rfloor>) = (2::int)"
    by (simp only: floor_log2_3) simp
  ultimately show ?thesis by blast
qed


section \<open>A run of the outer loop\<close>

lemma sector_demo_fit: "sector demo_fit_self 1 = sector demo_self 1"
  by (simp add: sector_def demo_fit_self_def demo_self2_def)

lemma most_demo_fit: "most demo_fit_self = Some sum_index"
  by (simp add: demo_fit_self_def demo_self2_def demo_self_def)

lemma square_demo_fit: "square_pi demo_fit_self = False"
  by (simp add: demo_fit_self_def demo_self2_def demo_self_def)

lemma coarse_alphamat_demo1: "coarse_alphamat (sector demo_self 1) (Suc 0) = [[1], [0]]"
  by (simp add: sector_demo coarse_alphamat_def coarse_angles_def trig_matrix_def np_linspace_def Let_def)

lemma refine_alphamat_demo1: "refine_alphamat (sector demo_self 1) (Suc 0) = [[0], [- 1]]"
  by (simp add: sector_demo refine_alphamat_def refine_angles_def trig_matrix_def np_linspace_def Let_def)

lemma grid_search_demo:
  "grid_search demo_fit_self pa [[a, b]] [[c], [s]] (Suc 0) = Inr ([c, s], a * c + b * s)"
  by (simp add: grid_search_def most_demo_fit square_demo_fit objective_def sum_index_def matmul_def
      ncols_def col_def dot_def np_where_eq_def Let_def)

lemma gridplane_demo:
  "gridplane demo_fit_self [[a, b]] [] demo_args1 = Inr (([1, 0], a), demo_fit_self)"
proof -
  have 1: "map_of demo_args1 ''alphamat'' = Some (PMat [[1], [0]])" by (simp add: demo_args1_def)
  have 2: "grid_ndir demo_args1 [] = PInt 1"
    by (simp add: demo_args1_def grid_ndir_def has_key_def dict_get_def)
  have 3: "dict_get_default demo_args1 ''optmax'' (PFloat (snd (optrange demo_fit_self))) = PFloat 1"
    by (simp add: demo_args1_def dict_get_default_def demo_fit_self_def demo_self2_def demo_self_def)
  have 4: "demo_fit_self\<lparr>cached := Some (sector demo_self 1)\<rparr> = demo_fit_self"
    by (simp add: demo_fit_self_def)
  show ?thesis
    by (simp add: gridplane_def 1 2 3 4 Let_def sector_demo_fit coarse_alphamat_demo1 grid_search_demo)
qed

lemma gridplane_2_demo:
  "gridplane_2 demo_fit_self [[a, b]] [q] d [] demo_args2 = Inr ([0, - 1], - b)"
proof -
  have 1: "map_of demo_args2 ''alphamat'' = Some (PMat [[0], [- 1]])" by (simp add: demo_args2_def)
  have 2: "grid_ndir demo_args2 [] = PInt 1"
    by (simp add: demo_args2_def grid_ndir_def has_key_def dict_get_def)
  have 3: "cached demo_fit_self = Some (sector demo_self 1)" by (simp add: demo_fit_self_def)
  have 4: "rescale [[0], [- 1]] q = Inr [[0], [- 1]]"
    by (simp add: rescale_def radicands_def Let_def)
  show ?thesis
    by (simp add: gridplane_2_def 1 2 3 4 Let_def refine_alphamat_demo1 grid_search_demo)
qed

lemma reduce_seed_demo:
  "reduce_seed demo_fit_self demo_Z 3 demo_args1 = Inr ([1], [1, 0, 0], 1, demo_fit_self)"
proof -
  have up: "[2..<3] = [2::nat]" by (simp add: upt_rec)
  have rep: "replicate 3 (0::real) = [0, 0, 0]" by (simp add: numeral_3_eq_3)
  show ?thesis
    by (simp add: reduce_seed_def most_demo_fit demo_Z_def gridplane_demo wi_pair_def up rep
        fold_step_def projmat_def col_def combine_def matvec_def dot_def objective_def
        square_demo_fit sum_index_def)
qed

lemma sweep_demo:
  "foldE (sweep_step demo_fit_self demo_Z demo_args2 m2j) [0..<3] ([z], [a0, a1, a2])
     = Inr ([- 2000], [0, 0, - 1])"
proof -
  have up: "[0..<3] = [0, 1, 2::nat]" by (simp add: upt_rec)
  show ?thesis
    by (simp add: up sweep_step_def demo_Z_def projmat_def col_def gridplane_2_demo wi_pair_def
        combine_def)
qed

lemma outer_body_demo:
  assumes "l_Zopt s = [z]" "l_afin s = [a0, a1, a2]"
  shows "outer_body demo_fit_self sum_index demo_Z 3 demo_args1 demo_args2 m2j s
     = Inr \<lparr> l_Zopt = [- 2000], l_afin = [0, 0, - 1], l_objf = - 2000, l_objfold = l_objf s,
             l_afinbest = (if l_objf s = - 2000 then l_afinbest s else NewArray [0, 0, - 1]) \<rparr>"
proof -
  have c: "constraint demo_fit_self = ''norm''"
    by (simp add: demo_fit_self_def demo_self2_def demo_self_def)
  have n: "euclid_norm [0, 0, - 1] = 1" by (simp add: euclid_norm_def)
  have o: "objective demo_fit_self sum_index pa (matvec demo_Z [0, 0, - 1]) = - 2000" for pa
    by (simp add: objective_def square_demo_fit sum_index_def matvec_def demo_Z_def dot_def)
  show ?thesis
    by (simp add: outer_body_def assms sweep_demo Let_def o update_best_def c n)
qed


lemma outer_loop_sweeps_bound:
  "outer_loop self f Z p ga ga2 maxiter m2j ii s = Inr (s', ii') \<Longrightarrow>
     ii \<le> ii' \<and> (int ii \<le> maxiter + 1 \<longrightarrow> int ii' \<le> maxiter + 1)"
proof (induction self f Z p ga ga2 maxiter m2j ii s rule: outer_loop.induct)
  case (1 self f Z p ga ga2 maxiter m2j ii s)
  show ?case
  proof (cases "int ii < maxiter + 1 \<and> l_objf s \<noteq> 0
                \<and> \<bar>l_objfold s - l_objf s\<bar> / \<bar>l_objf s\<bar> > 1 / 10000")
    case False
    with "1.prems" show ?thesis
      by (subst (asm) outer_loop.simps) (auto split: if_splits)
  next
    case True
    with "1.prems" obtain s1 where b: "outer_body self f Z p ga ga2 m2j s = Inr s1"
      and r: "outer_loop self f Z p ga ga2 maxiter m2j (Suc ii) s1 = Inr (s', ii')"
      by (subst (asm) outer_loop.simps) (auto split: sum.splits)
    from True b have "Suc ii \<le> ii' \<and> (int (Suc ii) \<le> maxiter + 1 \<longrightarrow> int ii' \<le> maxiter + 1)"
      by (intro "1.IH" [OF _ _ _ b r]) auto
    with True show ?thesis by auto
  qed
qed

lemma maxiter_2j_1: "maxiter_2j 1 = Inr 1"
  by (simp add: maxiter_2j_def)

text \<open>
  Claim C3, evaluated on the code. With \<open>maxiter = 1\<close>, three variables, one observation
  \<open>(1, 2, 2000)\<close>, \<open>ndir = 1\<close> and the index that sums the scores, the relative change after
  the first sweep is one half, and the loop makes a second sweep: it stops after
  \<open>maxiter + 1 = 2\<close> sweeps, without an error, and returns the last \<open>afin\<close>.
\<close>

theorem outer_loop_runs_past_maxiter:
  "reduce demo_fit_self demo_Z 3 demo_args1 demo_args2 (PInt 1)
     = Inr ([0, 0, - 1], - 2000, 2, demo_fit_self)"
proof -
  let ?s0 = "\<lparr> l_Zopt = [1], l_afin = [1, 0, 0], l_objf = - 1000, l_objfold = 1,
                l_afinbest = SameArray \<rparr>"
  let ?s1 = "\<lparr> l_Zopt = [- 2000], l_afin = [0, 0, - 1], l_objf = - 2000, l_objfold = - 1000,
                l_afinbest = NewArray [0, 0, - 1] \<rparr>"
  let ?s2 = "\<lparr> l_Zopt = [- 2000], l_afin = [0, 0, - 1], l_objf = - 2000, l_objfold = - 2000,
                l_afinbest = NewArray [0, 0, - 1] \<rparr>"
  have b0: "outer_body demo_fit_self sum_index demo_Z 3 demo_args1 demo_args2 1 ?s0 = Inr ?s1"
    by (subst outer_body_demo [of _ 1 1 0 0]) simp_all
  have b1: "outer_body demo_fit_self sum_index demo_Z 3 demo_args1 demo_args2 1 ?s1 = Inr ?s2"
    by (subst outer_body_demo [of _ "- 2000" 0 0 "- 1"]) simp_all
  have l2: "outer_loop demo_fit_self sum_index demo_Z 3 demo_args1 demo_args2 1 1 (Suc (Suc 0)) ?s2
              = Inr (?s2, 2)"
    by (subst outer_loop.simps) simp
  have l1: "outer_loop demo_fit_self sum_index demo_Z 3 demo_args1 demo_args2 1 1 (Suc 0) ?s1
              = Inr (?s2, 2)"
    by (subst outer_loop.simps) (simp add: b1 l2)
  have l0: "outer_loop demo_fit_self sum_index demo_Z 3 demo_args1 demo_args2 1 1 0 ?s0 = Inr (?s2, 2)"
    by (subst outer_loop.simps) (simp add: b0 l1)
  show ?thesis
    by (simp add: reduce_def reduce_seed_demo maxiter_2j_1 most_demo_fit l0)
qed

section \<open>The best combination and its norm\<close>
























end
